theory Spec2Isabelle
  imports Main
begin

section \<open>JavaScript values the actions handle\<close>

text \<open>
  The selection fields the actions test for truthiness and splice into strings are
  strings that may be \<^verbatim>\<open>undefined\<close> or \<^verbatim>\<open>null\<close>. On these primitives \<^verbatim>\<open>!==\<close> is
  inequality of values, \<^verbatim>\<open>!x\<close> is true exactly for \<^verbatim>\<open>undefined\<close>, \<^verbatim>\<open>null\<close> and the
  empty string, and a template literal prints \<^verbatim>\<open>undefined\<close> and \<^verbatim>\<open>null\<close> by name.
\<close>

datatype jsstr = Undefined | Null | Str string

fun truthy :: "jsstr \<Rightarrow> bool" where
  "truthy Undefined = False"
| "truthy Null = False"
| "truthy (Str s) = (s \<noteq> [])"

fun template :: "jsstr \<Rightarrow> string" where
  "template Undefined = ''undefined''"
| "template Null = ''null''"
| "template (Str s) = s"

text \<open>
  Reading an array at an index: \<^verbatim>\<open>undefined\<close>, which is falsy, outside the array.
\<close>

definition flag_at :: "bool list \<Rightarrow> nat \<Rightarrow> bool" where
  "flag_at flags i = (i < length flags \<and> flags ! i)"

section \<open>The calendar of Moment.js\<close>

text \<open>
  \<^verbatim>\<open>computeDates\<close> calls the Moment.js library on dates without a time of day: it parses
  a date string, takes the difference of two moments in whole days, reads the day of the
  week, prints a moment as \<^verbatim>\<open>YYYY-MM-DD\<close> and advances a moment by one day. All of these
  are calendar-day arithmetic, so a valid moment is the number of days since 1970-01-01
  (a Thursday) in the proleptic Gregorian calendar, and an invalid moment is \<open>None\<close>.
  The application keeps its dates in the form \<^verbatim>\<open>YYYY-MM-DD\<close>; this is the form parsed
  here, and every other string is taken for an invalid moment.
\<close>

definition days_from_civil :: "int \<Rightarrow> int \<Rightarrow> int \<Rightarrow> int" where
  "days_from_civil y m d =
     (let y' = (if m \<le> 2 then y - 1 else y);
          era = y' div 400;
          yoe = y' - era * 400;
          doy = (153 * (if m > 2 then m - 3 else m + 9) + 2) div 5 + d - 1;
          doe = yoe * 365 + yoe div 4 - yoe div 100 + doy
      in era * 146097 + doe - 719468)"

definition civil_from_days :: "int \<Rightarrow> int \<times> int \<times> int" where
  "civil_from_days z =
     (let z' = z + 719468;
          era = z' div 146097;
          doe = z' - era * 146097;
          yoe = (doe - doe div 1460 + doe div 36524 - doe div 146096) div 365;
          doy = doe - (365 * yoe + yoe div 4 - yoe div 100);
          mp = (5 * doy + 2) div 153;
          d = doy - (153 * mp + 2) div 5 + 1;
          m = (if mp < 10 then mp + 3 else mp - 9);
          y = yoe + era * 400
      in (if m \<le> 2 then y + 1 else y, m, d))"

definition is_leap :: "int \<Rightarrow> bool" where
  "is_leap y = (y mod 4 = 0 \<and> (y mod 100 \<noteq> 0 \<or> y mod 400 = 0))"

definition days_in_month :: "int \<Rightarrow> int \<Rightarrow> int" where
  "days_in_month y m =
     (if m = 2 then (if is_leap y then 29 else 28)
      else if m = 4 \<or> m = 6 \<or> m = 9 \<or> m = 11 then 30 else 31)"

definition is_digit :: "char \<Rightarrow> bool" where
  "is_digit c = ((48::nat) \<le> of_char c \<and> of_char c \<le> (57::nat))"

fun digits_value :: "nat \<Rightarrow> string \<Rightarrow> nat" where
  "digits_value acc [] = acc"
| "digits_value acc (c # cs) = digits_value (acc * 10 + (of_char c - 48)) cs"

definition number_of :: "string \<Rightarrow> int option" where
  "number_of s = (if s \<noteq> [] \<and> list_all is_digit s then Some (int (digits_value 0 s)) else None)"

definition Moment :: "string \<Rightarrow> int option" where
  "Moment s =
     (if length s = 10 \<and> s ! 4 = CHR ''-'' \<and> s ! 7 = CHR ''-'' then
        (case (number_of (take 4 s), number_of (take 2 (drop 5 s)), number_of (drop 8 s)) of
           (Some y, Some m, Some d) \<Rightarrow>
             if 1 \<le> m \<and> m \<le> 12 \<and> 1 \<le> d \<and> d \<le> days_in_month y m
             then Some (days_from_civil y m d) else None
         | _ \<Rightarrow> None)
      else None)"

definition moment_diff_days :: "int \<Rightarrow> int \<Rightarrow> int" where
  "moment_diff_days a b = a - b"

definition moment_day :: "int \<Rightarrow> nat" where
  "moment_day z = nat ((z + 4) mod 7)"

definition moment_add_days :: "int \<Rightarrow> int \<Rightarrow> int" where
  "moment_add_days z n = z + n"

fun decimal :: "nat \<Rightarrow> string" where
  "decimal n = (if n < 10 then [char_of (48 + n)] else decimal (n div 10) @ [char_of (48 + n mod 10)])"

definition zero_fill :: "nat \<Rightarrow> int \<Rightarrow> string" where
  "zero_fill width n =
     (let ds = decimal (nat \<bar>n\<bar>)
      in (if n < 0 then ''-'' else '''') @ replicate (width - length ds) (CHR ''0'') @ ds)"

definition moment_format :: "int \<Rightarrow> string" where
  "moment_format z =
     (case civil_from_days z of
        (y, m, d) \<Rightarrow> zero_fill 4 y @ ''-'' @ zero_fill 2 m @ ''-'' @ zero_fill 2 d)"

section \<open>Selections\<close>

record dateRange =
  date :: string
  startDate :: string
  startTime :: jsstr
  endTime :: jsstr
  daysOfTheWeek :: "bool list"

record graphParams =
  agencyId :: jsstr
  routeId :: jsstr
  directionId :: jsstr
  startStopId :: jsstr
  endStopId :: jsstr
  firstDateRange :: dateRange
  secondDateRange :: "dateRange option"

section \<open>computeDates\<close>

text \<open>
  The loop of \<^verbatim>\<open>computeDates\<close>: \<open>i\<close> counts up to \<open>numberOfDaysBack\<close>; each round
  pushes the printed \<open>startMoment\<close> when the flag of its day of the week is set, then
  advances \<open>startMoment\<close> by one day.
\<close>

function dates_loop :: "nat \<Rightarrow> nat \<Rightarrow> int \<Rightarrow> bool list \<Rightarrow> string list \<Rightarrow> string list" where
  "dates_loop i numberOfDaysBack startMoment flags dates =
     (if i < numberOfDaysBack then
        dates_loop (i + 1) numberOfDaysBack (moment_add_days startMoment 1) flags
          (if flag_at flags (moment_day startMoment)
           then dates @ [moment_format startMoment] else dates)
      else dates)"
  by pat_completeness auto
termination
  by (relation "measure (\<lambda>(i, n, m, flags, dates). n - i)") auto

text \<open>
  \<open>MAX_DATE_RANGE\<close> is imported from the UI constants, which are not among the sources:
  it is a parameter, a number of days. A difference with an invalid moment is NaN, every
  comparison with NaN is false, and the loop then runs no round. The moment assigned to
  \<open>endMoment\<close> when \<open>deltaDays < 0\<close> is not read again.
\<close>

definition computeDates :: "nat \<Rightarrow> dateRange \<Rightarrow> string list" where
  "computeDates MAX_DATE_RANGE dateRangeParams =
     (case (Moment (date dateRangeParams), Moment (startDate dateRangeParams)) of
        (Some endMoment, Some startMoment) \<Rightarrow>
          (let deltaDays = moment_diff_days endMoment startMoment;
               numberOfDaysBack = nat \<bar>deltaDays\<bar> + 1;
               endMoment = (if deltaDays < 0 then startMoment else endMoment);
               numberOfDaysBack =
                 (if numberOfDaysBack > MAX_DATE_RANGE then MAX_DATE_RANGE else numberOfDaysBack)
           in dates_loop 0 numberOfDaysBack startMoment (daysOfTheWeek dateRangeParams) [])
      | _ \<Rightarrow> [])"

section \<open>Configuration\<close>

text \<open>
  The constants the actions import from the configuration and the UI constants, which are
  not among the sources: they are parameters, collected in one record. \<open>agency_id\<close> is
  the field \<^verbatim>\<open>id\<close> of a configured agency.
\<close>

record agency =
  agency_id :: string

record config =
  MetricsBaseURL :: string
  S3Bucket :: string
  RoutesVersion :: string
  ArrivalsVersion :: string
  Agencies :: "agency list"
  MAX_DATE_RANGE :: nat

section \<open>Resource locations\<close>

text \<open>\<^verbatim>\<open>dateStr.replace(/-/g, '/')\<close>: every hyphen becomes a slash.\<close>

fun replace_hyphens :: "string \<Rightarrow> string" where
  "replace_hyphens [] = []"
| "replace_hyphens (c # cs) = (if c = CHR ''-'' then CHR ''/'' else c) # replace_hyphens cs"

definition generateRoutesURL :: "config \<Rightarrow> jsstr \<Rightarrow> string" where
  "generateRoutesURL cfg agencyId' =
     ''https://'' @ S3Bucket cfg @ ''.s3.amazonaws.com/routes/'' @ RoutesVersion cfg
       @ ''/routes_'' @ RoutesVersion cfg @ ''_'' @ template agencyId' @ ''.json.gz?x''"

definition generateArrivalsURL :: "config \<Rightarrow> jsstr \<Rightarrow> string \<Rightarrow> jsstr \<Rightarrow> string" where
  "generateArrivalsURL cfg agencyId' dateStr routeId' =
     ''https://'' @ S3Bucket cfg @ ''.s3.amazonaws.com/arrivals/'' @ ArrivalsVersion cfg
       @ ''/'' @ template agencyId' @ ''/'' @ replace_hyphens dateStr
       @ ''/arrivals_'' @ ArrivalsVersion cfg @ ''_'' @ template agencyId' @ ''_'' @ dateStr
       @ ''_'' @ template routeId' @ ''.json.gz?aj''"

section \<open>JSON.stringify of variable bindings\<close>

text \<open>
  The values the actions bind to query variables: selection strings (or \<^verbatim>\<open>undefined\<close>,
  \<^verbatim>\<open>null\<close>), booleans and lists of date strings. \<^verbatim>\<open>JSON.stringify\<close> prints the members of
  an object in the order they were added, leaves out a member whose value is
  \<^verbatim>\<open>undefined\<close>, and escapes the quotation mark, the backslash and the control
  characters of a string.
\<close>

datatype jsvalue = JUndefined | JNull | JBool bool | JString string | JStrings "string list"

fun of_jsstr :: "jsstr \<Rightarrow> jsvalue" where
  "of_jsstr Undefined = JUndefined"
| "of_jsstr Null = JNull"
| "of_jsstr (Str s) = JString s"

fun join :: "string \<Rightarrow> string list \<Rightarrow> string" where
  "join sep [] = []"
| "join sep [x] = x"
| "join sep (x # y # ys) = x @ sep @ join sep (y # ys)"

definition hex_digit :: "nat \<Rightarrow> char" where
  "hex_digit n = (if n < 10 then char_of (48 + n) else char_of (87 + n))"

definition json_escape :: "char \<Rightarrow> string" where
  "json_escape c =
     (let n = (of_char c :: nat) in
      if n = 0x22 then [CHR 0x5C, CHR 0x22]
      else if n = 0x5C then [CHR 0x5C, CHR 0x5C]
      else if n = 8 then [CHR 0x5C, CHR ''b'']
      else if n = 12 then [CHR 0x5C, CHR ''f'']
      else if n = 10 then [CHR 0x5C, CHR ''n'']
      else if n = 13 then [CHR 0x5C, CHR ''r'']
      else if n = 9 then [CHR 0x5C, CHR ''t'']
      else if n < 32 then [CHR 0x5C, CHR ''u'', CHR ''0'', CHR ''0'', hex_digit (n div 16), hex_digit (n mod 16)]
      else [c])"

definition json_quote :: "string \<Rightarrow> string" where
  "json_quote s = [CHR 0x22] @ concat (map json_escape s) @ [CHR 0x22]"

fun json_value :: "jsvalue \<Rightarrow> string option" where
  "json_value JUndefined = None"
| "json_value JNull = Some ''null''"
| "json_value (JBool b) = Some (if b then ''true'' else ''false'')"
| "json_value (JString s) = Some (json_quote s)"
| "json_value (JStrings xs) = Some (''['' @ join '','' (map json_quote xs) @ '']'')"

definition json_member :: "string \<times> jsvalue \<Rightarrow> string option" where
  "json_member kv = map_option (\<lambda>text. json_quote (fst kv) @ '':'' @ text) (json_value (snd kv))"

definition JSON_stringify :: "(string \<times> jsvalue) list \<Rightarrow> string" where
  "JSON_stringify obj = ''{'' @ join '','' (List.map_filter json_member obj) @ ''}''"

section \<open>Query documents\<close>

text \<open>
  \<^verbatim>\<open>.replace(/\s+/g, ' ')\<close>: every run of white space becomes one space. The documents
  are given line by line; the lines of a template literal are joined by line feeds.
  They are ASCII text, so the white space in them is the ASCII white space.
\<close>

definition is_space :: "char \<Rightarrow> bool" where
  "is_space c = ((of_char c :: nat) \<in> {9, 10, 11, 12, 13, 32})"

function collapse_spaces :: "string \<Rightarrow> string" where
  "collapse_spaces [] = []"
| "collapse_spaces (c # cs) =
     (if is_space c then CHR '' '' # collapse_spaces (dropWhile is_space cs)
      else c # collapse_spaces cs)"
  by pat_completeness auto
termination
  by (relation "measure length") (auto simp: length_dropWhile_le less_Suc_eq_le)

definition tripMetrics_query_lines :: "string list" where
  "tripMetrics_query_lines =
     ['''',
      ''fragment intervalFields on TripIntervalMetrics {'',
      ''      departures'',
      ''      scheduledDepartures'',
      ''      arrivals'',
      ''      scheduledArrivals'',
      ''      headways {'',
      ''        count median max'',
      ''        histogram { binStart binEnd count }'',
      ''      }'',
      ''      headwayScheduleDeltas {'',
      ''          count'',
      ''          histogram { binStart binEnd count }'',
      ''      }'',
      ''      scheduledHeadways {'',
      ''        count median max'',
      ''        histogram { binStart binEnd count }'',
      ''      }'',
      ''      tripTimes {'',
      ''        count median max'',
      ''        percentiles(percentiles:[90]) { percentile value }'',
      ''        histogram { binStart binEnd count }'',
      ''      }'',
      ''      scheduledTripTimes {'',
      ''        count median max'',
      ''        percentiles(percentiles:[90]) { percentile value }'',
      ''        histogram { binStart binEnd count }'',
      ''      }'',
      ''      waitTimes {'',
      ''        median max'',
      ''        percentiles(percentiles:[90]) { percentile value }'',
      ''        histogram { binStart binEnd count }'',
      ''      }'',
      ''      scheduledWaitTimes {'',
      ''        median max'',
      ''        percentiles(percentiles:[90]) { percentile value }'',
      ''        histogram { binStart binEnd count }'',
      ''      }'',
      ''      departureScheduleAdherence {'',
      ''        onTimeCount'',
      ''        scheduledCount'',
      ''        closestDeltas {'',
      ''          histogram(min:-5, max:15, binSize:1) { binStart binEnd count }'',
      ''          count'',
      ''        }'',
      ''      }'',
      ''      arrivalScheduleAdherence {'',
      ''        onTimeCount'',
      ''        scheduledCount'',
      ''      }'',
      ''}'',
      ''fragment timeRangeFields on TripIntervalMetrics {'',
      ''  startTime endTime'',
      ''  waitTimes {'',
      ''    percentiles(percentiles:[50,90]) { percentile value }'',
      ''  }'',
      ''  tripTimes {'',
      ''    percentiles(percentiles:[50,90]) { percentile value }'',
      ''  }'',
      ''  scheduledWaitTimes {'',
      ''    percentiles(percentiles:[50,90]) { percentile value }'',
      ''  }'',
      ''  scheduledTripTimes {'',
      ''    percentiles(percentiles:[50,90]) { percentile value }'',
      ''  }'',
      ''  headways {'',
      ''    median'',
      ''  }'',
      ''  scheduledHeadways {'',
      ''    median'',
      ''  }'',
      ''  departureScheduleAdherence {'',
      ''    onTimeCount'',
      ''    scheduledCount'',
      ''  }'',
      ''  arrivalScheduleAdherence {'',
      ''    onTimeCount'',
      ''    scheduledCount'',
      ''  }'',
      ''}'',
      '''',
      ''query($agencyId:String!, $routeId:String!,'',
      ''      $startStopId:String!, $endStopId:String, $directionId:String,'',
      ''      $dates:[String!], $startTime:String, $endTime:String,'',
      ''      $dates2:[String!], $startTime2:String, $endTime2:String,'',
      ''      $includeByDay:Boolean!,'',
      ''      $includeTimeRanges:Boolean!, $includeTimeRanges2:Boolean!,'',
      ''      $dualDateRange:Boolean!) {'',
      ''  agency(agencyId:$agencyId) {'',
      ''    route(routeId:$routeId) {'',
      ''      trip(startStopId:$startStopId, endStopId:$endStopId, directionId:$directionId) {'',
      ''        interval(dates:$dates, startTime:$startTime, endTime:$endTime) {'',
      ''          ...intervalFields'',
      ''        }'',
      ''        interval2: interval(dates:$dates2, startTime:$startTime2, endTime:$endTime2) @include(if: $dualDateRange) {'',
      ''          ...intervalFields'',
      ''        }'',
      ''        timeRanges(dates:$dates) @include(if: $includeTimeRanges) {'',
      ''          ...timeRangeFields'',
      ''        }'',
      ''        timeRanges2: timeRanges(dates:$dates2) @include(if: $includeTimeRanges2) {'',
      ''          ...timeRangeFields'',
      ''        }'',
      ''        byDay(dates:$dates, startTime:$startTime, endTime:$endTime) @include(if: $includeByDay) {'',
      ''          dates'',
      ''          startTime'',
      ''          endTime'',
      ''          headways {'',
      ''            median'',
      ''          }'',
      ''          scheduledHeadways {'',
      ''            median'',
      ''          }'',
      ''          tripTimes {'',
      ''            median'',
      ''            percentiles(percentiles:[90]) { percentile value }'',
      ''           }'',
      ''          waitTimes {'',
      ''            median'',
      ''            percentiles(percentiles:[90]) { percentile value }'',
      ''          }'',
      ''          scheduledTripTimes {'',
      ''            median'',
      ''            percentiles(percentiles:[90]) { percentile value }'',
      ''           }'',
      ''          scheduledWaitTimes {'',
      ''            median'',
      ''            percentiles(percentiles:[90]) { percentile value }'',
      ''          }'',
      ''          departureScheduleAdherence {'',
      ''            onTimeCount'',
      ''            scheduledCount'',
      ''          }'',
      ''          arrivalScheduleAdherence {'',
      ''            onTimeCount'',
      ''            scheduledCount'',
      ''          }'',
      ''        }'',
      ''      }'',
      ''    }'',
      ''  }'',
      ''}'',
      ''  '']"

definition routeMetrics_query_lines :: "string list" where
  "routeMetrics_query_lines =
     ['''',
      ''fragment intervalFields on RouteIntervalMetrics {'',
      ''  directions {'',
      ''    directionId'',
      ''    medianHeadway'',
      ''    medianWaitTime'',
      ''    averageSpeed(units:'' @ [CHR 0x22] @ ''mph'' @ [CHR 0x22] @ '')'',
      ''    completedTrips'',
      ''    onTimeRate'',
      ''    scheduledMedianHeadway'',
      ''    scheduledMedianWaitTime'',
      ''    scheduledAverageSpeed(units:'' @ [CHR 0x22] @ ''mph'' @ [CHR 0x22] @ '')'',
      ''    scheduledCompletedTrips'',
      ''    segments {'',
      ''      fromStopId'',
      ''      toStopId'',
      ''      medianTripTime'',
      ''      trips'',
      ''    }'',
      ''    cumulativeSegments {'',
      ''      fromStopId'',
      ''      toStopId'',
      ''      medianTripTime'',
      ''      scheduledMedianTripTime'',
      ''      trips'',
      ''      scheduledTrips'',
      ''    }'',
      ''  }'',
      ''}'',
      '''',
      ''query($agencyId:String!, $routeId:String!,'',
      ''    $dates:[String!], $startTime:String, $endTime:String,'',
      ''    $dates2:[String!], $startTime2:String, $endTime2:String,'',
      ''    $dualDateRange:Boolean!'',
      '') {'',
      ''  agency(agencyId:$agencyId) {'',
      ''    route(routeId:$routeId) {'',
      ''      interval(dates:$dates, startTime:$startTime, endTime:$endTime) {'',
      ''         ...intervalFields'',
      ''      }'',
      ''      interval2: interval(dates:$dates2, startTime:$startTime2, endTime:$endTime2) @include(if: $dualDateRange) {'',
      ''         ...intervalFields'',
      ''      }'',
      ''    }'',
      ''  }'',
      ''}'']"

definition agencyMetrics_query_lines :: "string list" where
  "agencyMetrics_query_lines =
     [''query($agencyId:String!, $dates:[String!], $startTime:String, $endTime:String) {'',
      ''  agency(agencyId:$agencyId) {'',
      ''    agencyId'',
      ''    interval(dates:$dates, startTime:$startTime, endTime:$endTime) {'',
      ''      routes {'',
      ''        routeId'',
      ''        directions {'',
      ''          directionId'',
      ''          medianHeadway'',
      ''          medianWaitTime'',
      ''          averageSpeed(units:'' @ [CHR 0x22] @ ''mph'' @ [CHR 0x22] @ '')'',
      ''          onTimeRate'',
      ''        }'',
      ''      }'',
      ''    }'',
      ''  }'',
      ''}'']"

definition tripMetrics_query :: string where
  "tripMetrics_query = collapse_spaces (join [CHR 0x0A] tripMetrics_query_lines)"

definition routeMetrics_query :: string where
  "routeMetrics_query = collapse_spaces (join [CHR 0x0A] routeMetrics_query_lines)"

definition agencyMetrics_query :: string where
  "agencyMetrics_query = collapse_spaces (join [CHR 0x0A] agencyMetrics_query_lines)"

section \<open>Responses and thrown errors\<close>

text \<open>
  The payload of the metrics backend has an optional list of errors, each with a
  message, and optional data, in which the actions look for \<^verbatim>\<open>agency\<close>, \<^verbatim>\<open>route\<close> and
  \<^verbatim>\<open>trip\<close>; what else a node holds they pass on unread, here as text. An absent or \<^verbatim>\<open>null\<close>
  member is \<open>None\<close>.

  A thrown error is the object a \<^verbatim>\<open>catch\<close> callback receives: it has a message and, when
  it comes from the HTTP client, the response of the server. The message of a TypeError
  is the text of the V8 engine.
\<close>

record gql_error =
  message :: string

type_synonym blob = string

record route_node =
  trip :: "blob option"
  route_fields :: blob

record agency_node =
  route :: "route_node option"
  agency_fields :: blob

record query_data =
  agency :: "agency_node option"

record payload =
  errors :: "gql_error list option"
  data :: "query_data option"

record 'd http_response =
  response_data :: 'd

record error_object =
  err_response :: "payload option http_response option"
  err_message :: string

definition TypeError :: "string \<Rightarrow> error_object" where
  "TypeError property =
     \<lparr>err_response = None,
      err_message = ''Cannot read properties of undefined (reading '' @ [CHR 0x27] @ property
        @ [CHR 0x27] @ '')''\<rparr>"

section \<open>Variable bindings of the three metrics queries\<close>

text \<open>
  Reading \<^verbatim>\<open>Agencies[0].id\<close> throws a TypeError when no agency is configured.
\<close>

definition first_agency_id :: "config \<Rightarrow> error_object + string" where
  "first_agency_id cfg =
     (case Agencies cfg of [] \<Rightarrow> Inl (TypeError ''id'') | a # _ \<Rightarrow> Inr (agency_id a))"

definition fetchTripMetrics_variables :: "config \<Rightarrow> graphParams \<Rightarrow> (string \<times> jsvalue) list" where
  "fetchTripMetrics_variables cfg params =
     (let dates = computeDates (MAX_DATE_RANGE cfg) (firstDateRange params);
          variables =
            [(''agencyId'', of_jsstr (agencyId params)),
             (''routeId'', of_jsstr (routeId params)),
             (''directionId'', of_jsstr (directionId params)),
             (''startStopId'', of_jsstr (startStopId params)),
             (''endStopId'', of_jsstr (endStopId params)),
             (''dates'', JStrings dates),
             (''startTime'', of_jsstr (startTime (firstDateRange params))),
             (''endTime'', of_jsstr (endTime (firstDateRange params))),
             (''includeTimeRanges'', JBool (\<not> truthy (startTime (firstDateRange params)))),
             (''includeByDay'', JBool (secondDateRange params = None \<and> length dates > 1)),
             (''includeTimeRanges2'',
                JBool (case secondDateRange params of
                         None \<Rightarrow> False
                       | Some second \<Rightarrow> \<not> truthy (startTime second))),
             (''dualDateRange'', JBool (secondDateRange params \<noteq> None))]
      in case secondDateRange params of
           None \<Rightarrow> variables
         | Some second \<Rightarrow>
             variables @
             [(''dates2'', JStrings (computeDates (MAX_DATE_RANGE cfg) second)),
              (''startTime2'', of_jsstr (startTime second)),
              (''endTime2'', of_jsstr (endTime second))])"

definition fetchRouteMetrics_variables ::
  "config \<Rightarrow> graphParams \<Rightarrow> error_object + (string \<times> jsvalue) list" where
  "fetchRouteMetrics_variables cfg params =
     (let dates = computeDates (MAX_DATE_RANGE cfg) (firstDateRange params)
      in case first_agency_id cfg of
           Inl err \<Rightarrow> Inl err
         | Inr first_id \<Rightarrow>
             (let variables =
                    [(''agencyId'', JString first_id),
                     (''routeId'', of_jsstr (routeId params)),
                     (''dates'', JStrings dates),
                     (''startTime'', of_jsstr (startTime (firstDateRange params))),
                     (''endTime'', of_jsstr (endTime (firstDateRange params))),
                     (''dualDateRange'', JBool (secondDateRange params \<noteq> None))]
              in case secondDateRange params of
                   None \<Rightarrow> Inr variables
                 | Some second \<Rightarrow>
                     Inr (variables @
                       [(''dates2'', JStrings (computeDates (MAX_DATE_RANGE cfg) second)),
                        (''startTime2'', of_jsstr (startTime second)),
                        (''endTime2'', of_jsstr (endTime second))])))"

definition fetchAgencyMetrics_variables ::
  "config \<Rightarrow> graphParams \<Rightarrow> error_object + (string \<times> jsvalue) list" where
  "fetchAgencyMetrics_variables cfg params =
     (let dates = computeDates (MAX_DATE_RANGE cfg) (firstDateRange params)
      in case first_agency_id cfg of
           Inl err \<Rightarrow> Inl err
         | Inr first_id \<Rightarrow>
             Inr [(''agencyId'', JString first_id),
                  (''dates'', JStrings dates),
                  (''startTime'', of_jsstr (startTime (firstDateRange params))),
                  (''endTime'', of_jsstr (endTime (firstDateRange params)))])"

section \<open>Actions and the callbacks of a request\<close>

datatype action =
    REQUEST_TRIP_METRICS
  | ERROR_TRIP_METRICS string
  | RECEIVED_TRIP_METRICS "blob option"
  | REQUEST_ROUTE_METRICS string
  | ERROR_ROUTE_METRICS string
  | RECEIVED_ROUTE_METRICS string "route_node option"
  | REQUEST_AGENCY_METRICS string
  | ERROR_AGENCY_METRICS string
  | RECEIVED_AGENCY_METRICS string "agency_node option"
  | REQUEST_ARRIVALS
  | RECEIVED_ARRIVALS "blob option" "string option"
  | ERROR_ARRIVALS string
  | RECEIVED_GRAPH_PARAMS graphParams

text \<open>
  \<^verbatim>\<open>RECEIVED_ARRIVALS\<close> carries \<^verbatim>\<open>data\<close>, then \<^verbatim>\<open>url\<close>; the route and agency actions carry
  \<^verbatim>\<open>variablesJson\<close>, then \<^verbatim>\<open>data\<close>. A callback dispatches one action, or throws.

  \<^verbatim>\<open>errors[0].message\<close> throws a TypeError on an empty list.
\<close>

definition first_error_message :: "gql_error list \<Rightarrow> error_object + string" where
  "first_error_message es =
     (case es of [] \<Rightarrow> Inl (TypeError ''message'') | e # _ \<Rightarrow> Inr (message e))"

text \<open>
  The callback of \<^verbatim>\<open>then\<close>, the same in the three metrics scopes but for the actions it
  dispatches: \<open>errored\<close> makes the error action, \<open>received\<close> the action of a payload
  without an error list.
\<close>

definition metrics_fulfilled ::
  "(string \<Rightarrow> action) \<Rightarrow> (agency_node option \<Rightarrow> action) \<Rightarrow> payload option http_response
     \<Rightarrow> error_object + action" where
  "metrics_fulfilled errored received response =
     (let responseData = response_data response
      in case Option.bind responseData errors of
           Some es \<Rightarrow>
             (case first_error_message es of
                Inl err \<Rightarrow> Inl err
              | Inr errStr \<Rightarrow> Inr (errored errStr))
         | None \<Rightarrow>
             (let agencyMetrics = Option.bind (Option.bind responseData data) agency
              in Inr (received agencyMetrics)))"

text \<open>The callback of \<^verbatim>\<open>catch\<close>, the same in the three metrics scopes.\<close>

definition metrics_rejected :: "(string \<Rightarrow> action) \<Rightarrow> error_object \<Rightarrow> error_object + action" where
  "metrics_rejected errored err =
     (case Option.bind (Option.bind (err_response err) response_data) errors of
        Some es \<Rightarrow>
          (case first_error_message es of
             Inl thrown \<Rightarrow> Inl thrown
           | Inr errStr \<Rightarrow> Inr (errored errStr))
      | None \<Rightarrow> Inr (errored (err_message err)))"

text \<open>
  \<^verbatim>\<open>promise.then(f).catch(g)\<close>: \<open>g\<close> receives the rejection of the request and also
  what \<open>f\<close> throws. \<open>Inl\<close> is a rejection nobody handles: nothing is dispatched.
\<close>

datatype ('r, 'e) settled = Fulfilled 'r | Rejected 'e

definition then_catch ::
  "('r \<Rightarrow> 'e + action) \<Rightarrow> ('e \<Rightarrow> 'e + action) \<Rightarrow> ('r, 'e) settled \<Rightarrow> 'e + action" where
  "then_catch f g s =
     (case s of
        Fulfilled response \<Rightarrow> (case f response of Inl err \<Rightarrow> g err | Inr a \<Rightarrow> Inr a)
      | Rejected err \<Rightarrow> g err)"

definition fetchTripMetrics_settled ::
  "(payload option http_response, error_object) settled \<Rightarrow> error_object + action" where
  "fetchTripMetrics_settled =
     then_catch
       (metrics_fulfilled ERROR_TRIP_METRICS
          (\<lambda>agencyMetrics.
             let routeMetrics = Option.bind agencyMetrics route;
                 tripMetrics = Option.bind routeMetrics trip
             in RECEIVED_TRIP_METRICS tripMetrics))
       (metrics_rejected ERROR_TRIP_METRICS)"

definition fetchRouteMetrics_settled ::
  "string \<Rightarrow> (payload option http_response, error_object) settled \<Rightarrow> error_object + action" where
  "fetchRouteMetrics_settled variablesJson =
     then_catch
       (metrics_fulfilled ERROR_ROUTE_METRICS
          (\<lambda>agencyMetrics.
             let routeMetrics = Option.bind agencyMetrics route
             in RECEIVED_ROUTE_METRICS variablesJson routeMetrics))
       (metrics_rejected ERROR_ROUTE_METRICS)"

definition fetchAgencyMetrics_settled ::
  "string \<Rightarrow> (payload option http_response, error_object) settled \<Rightarrow> error_object + action" where
  "fetchAgencyMetrics_settled variablesJson =
     then_catch
       (metrics_fulfilled ERROR_AGENCY_METRICS
          (\<lambda>agencyMetrics. RECEIVED_AGENCY_METRICS variablesJson agencyMetrics))
       (metrics_rejected ERROR_AGENCY_METRICS)"

definition fetchArrivals_settled ::
  "string \<Rightarrow> (blob option http_response, 'e) settled \<Rightarrow> 'e + action" where
  "fetchArrivals_settled s3Url =
     then_catch
       (\<lambda>response. Inr (RECEIVED_ARRIVALS (response_data response) (Some s3Url)))
       (\<lambda>_. Inr (ERROR_ARRIVALS ''No data.''))"

section \<open>The store and the thunks\<close>

text \<open>
  The part of the store's state the thunks read with \<^verbatim>\<open>getState()\<close>: the stored
  selection, the \<^verbatim>\<open>variablesJson\<close> of the route and agency metrics and the \<^verbatim>\<open>url\<close> of the
  arrivals, each \<open>None\<close> while it is \<^verbatim>\<open>null\<close> or \<^verbatim>\<open>undefined\<close>. Whatever else the state
  holds is the extension \<open>'z\<close> of the record. The reducers that compute the next state
  from an action are not among the sources: the thunks take the reducer as a parameter.

  A store is its current state and the record of what the thunks did to the outside,
  in order: the actions dispatched and the requests handed to the HTTP client.
\<close>

record app_state =
  graphParams_slice :: graphParams
  routeMetrics_variablesJson :: "string option"
  agencyMetrics_variablesJson :: "string option"
  arrivals_url :: "string option"

record http_request =
  url :: string
  query_params :: "(string \<times> string) list"
  baseURL :: "string option"

datatype event = Dispatched action | Get http_request

record 'z store =
  current :: "'z app_state_scheme"
  events :: "event list"

type_synonym 'z reducer = "'z app_state_scheme \<Rightarrow> action \<Rightarrow> 'z app_state_scheme"

definition dispatch :: "'z reducer \<Rightarrow> action \<Rightarrow> 'z store \<Rightarrow> 'z store" where
  "dispatch reduce a st = \<lparr>current = reduce (current st) a, events = events st @ [Dispatched a]\<rparr>"

definition axios_get :: "http_request \<Rightarrow> 'z store \<Rightarrow> 'z store" where
  "axios_get request st = st\<lparr>events := events st @ [Get request]\<rparr>"

text \<open>
  When a request settles, its callbacks run: the action they end in is dispatched; an
  error they throw is handled by nobody and leaves the store as it is.
\<close>

definition settle :: "'z reducer \<Rightarrow> 'e + action \<Rightarrow> 'z store \<Rightarrow> 'z store" where
  "settle reduce result st = (case result of Inl err \<Rightarrow> st | Inr a \<Rightarrow> dispatch reduce a st)"

text \<open>
  A thunk returns, or throws an error; either way it leaves a store behind.
\<close>

datatype 'z outcome = Returned "'z store" | Thrown error_object "'z store"

fun store_of :: "'z outcome \<Rightarrow> 'z store" where
  "store_of (Returned st) = st"
| "store_of (Thrown err st) = st"

fun and_then :: "'z outcome \<Rightarrow> ('z store \<Rightarrow> 'z outcome) \<Rightarrow> 'z outcome" where
  "and_then (Returned st) f = f st"
| "and_then (Thrown err st) f = Thrown err st"

definition graphql_request :: "config \<Rightarrow> string \<Rightarrow> string \<Rightarrow> http_request" where
  "graphql_request cfg query variables =
     \<lparr>url = ''/api/graphql'',
      query_params = [(''query'', query), (''variables'', variables)],
      baseURL = Some (MetricsBaseURL cfg)\<rparr>"

definition fetchTripMetrics ::
  "config \<Rightarrow> 'z reducer \<Rightarrow> graphParams \<Rightarrow> 'z store \<Rightarrow> 'z outcome" where
  "fetchTripMetrics cfg reduce params st =
     (let variables = fetchTripMetrics_variables cfg params;
          st = dispatch reduce REQUEST_TRIP_METRICS st;
          st = axios_get (graphql_request cfg tripMetrics_query (JSON_stringify variables)) st
      in Returned st)"

definition resetTripMetrics :: "'z reducer \<Rightarrow> 'z store \<Rightarrow> 'z outcome" where
  "resetTripMetrics reduce st = Returned (dispatch reduce (RECEIVED_TRIP_METRICS None) st)"

definition fetchRouteMetrics ::
  "config \<Rightarrow> 'z reducer \<Rightarrow> graphParams \<Rightarrow> 'z store \<Rightarrow> 'z outcome" where
  "fetchRouteMetrics cfg reduce params st =
     (case fetchRouteMetrics_variables cfg params of
        Inl err \<Rightarrow> Thrown err st
      | Inr variables \<Rightarrow>
          (let variablesJson = JSON_stringify variables
           in if routeMetrics_variablesJson (current st) \<noteq> Some variablesJson then
                (let st = dispatch reduce (REQUEST_ROUTE_METRICS variablesJson) st;
                     st = axios_get (graphql_request cfg routeMetrics_query variablesJson) st
                 in Returned st)
              else Returned st))"

definition fetchAgencyMetrics ::
  "config \<Rightarrow> 'z reducer \<Rightarrow> graphParams \<Rightarrow> 'z store \<Rightarrow> 'z outcome" where
  "fetchAgencyMetrics cfg reduce params st =
     (case fetchAgencyMetrics_variables cfg params of
        Inl err \<Rightarrow> Thrown err st
      | Inr variables \<Rightarrow>
          (let variablesJson = JSON_stringify variables
           in if agencyMetrics_variablesJson (current st) \<noteq> Some variablesJson then
                (let st = dispatch reduce (REQUEST_AGENCY_METRICS variablesJson) st;
                     st = axios_get (graphql_request cfg agencyMetrics_query variablesJson) st
                 in Returned st)
              else Returned st))"

definition fetchArrivals ::
  "config \<Rightarrow> 'z reducer \<Rightarrow> graphParams \<Rightarrow> 'z store \<Rightarrow> 'z outcome" where
  "fetchArrivals cfg reduce params st =
     (let dateStr = date (firstDateRange params);
          agencyId' = agencyId params;
          s3Url = generateArrivalsURL cfg agencyId' dateStr (routeId params)
      in if arrivals_url (current st) \<noteq> Some s3Url then
           (let st = dispatch reduce REQUEST_ARRIVALS st;
                st = axios_get \<lparr>url = s3Url, query_params = [], baseURL = None\<rparr> st
            in Returned st)
         else Returned st)"

definition resetArrivals :: "'z reducer \<Rightarrow> 'z store \<Rightarrow> 'z outcome" where
  "resetArrivals reduce st = Returned (dispatch reduce (RECEIVED_ARRIVALS None None) st)"

definition handleGraphParams ::
  "config \<Rightarrow> 'z reducer \<Rightarrow> graphParams \<Rightarrow> 'z store \<Rightarrow> 'z outcome" where
  "handleGraphParams cfg reduce params st =
     (let oldParams = graphParams_slice (current st);
          st = dispatch reduce (RECEIVED_GRAPH_PARAMS params) st;
          graphParams = graphParams_slice (current st)
      in and_then
           (if date (firstDateRange oldParams) \<noteq> date (firstDateRange graphParams)
               \<or> routeId oldParams \<noteq> routeId graphParams
               \<or> agencyId oldParams \<noteq> agencyId graphParams
            then resetArrivals reduce st else Returned st)
        (\<lambda>st. and_then
           (if date (firstDateRange graphParams) \<noteq> []
            then fetchAgencyMetrics cfg reduce graphParams st else Returned st)
        (\<lambda>st. and_then
           (if truthy (agencyId graphParams) \<and> truthy (routeId graphParams)
            then fetchRouteMetrics cfg reduce graphParams st else Returned st)
        (\<lambda>st.
           if truthy (agencyId graphParams) \<and> truthy (routeId graphParams)
              \<and> truthy (directionId graphParams) \<and> truthy (startStopId graphParams)
              \<and> truthy (endStopId graphParams)
           then fetchTripMetrics cfg reduce graphParams st
           else resetTripMetrics reduce st))))"

text \<open>
  Modelled from the spec: the reducers, which are not among the sources. The spec has
  the stored selection replaced by each new one, the fingerprint of a scope recorded by
  its Requested and Received transitions, and the archive result reset to empty; an
  action that carries no fingerprint or location leaves the recorded one as it is.
\<close>

fun rootReducer :: "'z reducer" where
  "rootReducer s (RECEIVED_GRAPH_PARAMS params) = s\<lparr>graphParams_slice := params\<rparr>"
| "rootReducer s (REQUEST_ROUTE_METRICS variablesJson) =
     s\<lparr>routeMetrics_variablesJson := Some variablesJson\<rparr>"
| "rootReducer s (RECEIVED_ROUTE_METRICS variablesJson d) =
     s\<lparr>routeMetrics_variablesJson := Some variablesJson\<rparr>"
| "rootReducer s (REQUEST_AGENCY_METRICS variablesJson) =
     s\<lparr>agencyMetrics_variablesJson := Some variablesJson\<rparr>"
| "rootReducer s (RECEIVED_AGENCY_METRICS variablesJson d) =
     s\<lparr>agencyMetrics_variablesJson := Some variablesJson\<rparr>"
| "rootReducer s (RECEIVED_ARRIVALS d location) = s\<lparr>arrivals_url := location\<rparr>"
| "rootReducer s _ = s"

section \<open>Counting, and the days a range walks over\<close>

text \<open>
  The days \<open>start\<close>, \<open>start + 1\<close>, ... (\<open>n\<close> of them) whose flag of the day of the week
  is set: what the loop of \<^verbatim>\<open>computeDates\<close> is shown to print.
\<close>

definition flagged_days :: "bool list \<Rightarrow> int \<Rightarrow> nat \<Rightarrow> int list" where
  "flagged_days flags start n =
     filter (\<lambda>z. flag_at flags (moment_day z)) (map (\<lambda>k. start + int k) [0..<n])"

fun is_request :: "event \<Rightarrow> bool" where
  "is_request (Get request) = True"
| "is_request (Dispatched a) = False"

definition network_calls :: "'z store \<Rightarrow> nat" where
  "network_calls st = length (filter is_request (events st))"

section \<open>Example values\<close>

definition all_week :: "bool list" where
  "all_week = [True, True, True, True, True, True, True]"

definition example_config :: config where
  "example_config =
     \<lparr>MetricsBaseURL = ''https://metrics.example.org'',
      S3Bucket = ''opentransit-stop-arrivals'',
      RoutesVersion = ''v3a'',
      ArrivalsVersion = ''v1'',
      Agencies = [\<lparr>agency_id = ''sf-muni''\<rparr>],
      MAX_DATE_RANGE = 90\<rparr>"

definition weekdays_range :: dateRange where
  "weekdays_range =
     \<lparr>date = ''2023-03-10'', startDate = ''2023-03-06'', startTime = Null, endTime = Null,
      daysOfTheWeek = [False, True, True, True, True, True, False]\<rparr>"

definition monday_range :: dateRange where
  "monday_range =
     \<lparr>date = ''2023-03-06'', startDate = ''2023-03-06'', startTime = Null, endTime = Null,
      daysOfTheWeek = all_week\<rparr>"

definition example_params :: graphParams where
  "example_params =
     \<lparr>agencyId = Str ''sf-muni'', routeId = Str ''12'', directionId = Str ''1'',
      startStopId = Str ''4015'', endStopId = Str ''4016'',
      firstDateRange = weekdays_range, secondDateRange = None\<rparr>"

definition initial_state :: app_state where
  "initial_state =
     \<lparr>graphParams_slice =
        \<lparr>agencyId = Str ''sf-muni'', routeId = Null, directionId = Null,
         startStopId = Null, endStopId = Null,
         firstDateRange = monday_range, secondDateRange = None\<rparr>,
      routeMetrics_variablesJson = None,
      agencyMetrics_variablesJson = None,
      arrivals_url = None\<rparr>"

definition initial_store :: "unit store" where
  "initial_store = \<lparr>current = initial_state, events = []\<rparr>"

definition example_url :: string where
  "example_url = generateArrivalsURL example_config (agencyId example_params)
     (date (firstDateRange example_params)) (routeId example_params)"

text \<open>A store in which the fingerprints of the example selection are already recorded.\<close>

definition recorded_store :: "string \<Rightarrow> string \<Rightarrow> unit store" where
  "recorded_store routeJson agencyJson =
     \<lparr>current = initial_state
        \<lparr>routeMetrics_variablesJson := Some routeJson,
         agencyMetrics_variablesJson := Some agencyJson,
         arrivals_url := Some example_url\<rparr>,
      events = []\<rparr>"

section \<open>What computeDates returns\<close>

lemma flagged_days_0: "flagged_days flags start 0 = []"
  by (simp add: flagged_days_def)

lemma flagged_days_Suc:
  "flagged_days flags start (Suc n) =
     (if flag_at flags (moment_day start) then [start] else []) @ flagged_days flags (start + 1) n"
proof -
  have "map (\<lambda>k. start + int k) [0..<Suc n] = start # map (\<lambda>k. (start + 1) + int k) [0..<n]"
    by (simp add: upt_conv_Cons map_Suc_upt [symmetric] del: upt_Suc)
  then show ?thesis
    by (simp add: flagged_days_def del: upt_Suc)
qed

lemma length_flagged_days: "length (flagged_days flags start n) \<le> n"
  unfolding flagged_days_def
  by (rule order_trans [OF length_filter_le]) simp

lemma flagged_days_flag: "z \<in> set (flagged_days flags start n) \<Longrightarrow> flag_at flags (moment_day z)"
  by (simp add: flagged_days_def)

lemma flagged_days_range:
  "z \<in> set (flagged_days flags start n) \<Longrightarrow> start \<le> z \<and> z < start + int n"
  by (auto simp: flagged_days_def)

lemma dates_loop_eq:
  "dates_loop i n m flags dates = dates @ map moment_format (flagged_days flags m (n - i))"
proof (induction i n m flags dates rule: dates_loop.induct)
  case (1 i n m flags dates)
  show ?case
  proof (cases "i < n")
    case True
    then have k: "n - i = Suc (n - (i + 1))" by simp
    show ?thesis
      using True "1.IH" [OF True]
      by (subst dates_loop.simps, subst k, simp add: flagged_days_Suc moment_add_days_def)
  next
    case False
    then show ?thesis
      by (subst dates_loop.simps) (simp add: flagged_days_0)
  qed
qed

text \<open>
  With both anchors valid, the walk starts at \<open>startDate\<close> and covers as many days as lie
  between the anchors, both counted, or \<open>MAX_DATE_RANGE\<close> days if that is less.
\<close>

lemma computeDates_eq:
  assumes "Moment (date sel) = Some e" and "Moment (startDate sel) = Some s"
  shows "computeDates maxDays sel =
           map moment_format (flagged_days (daysOfTheWeek sel) s (min maxDays (nat \<bar>e - s\<bar> + 1)))"
proof -
  have "computeDates maxDays sel =
          dates_loop 0 (if nat \<bar>e - s\<bar> + 1 > maxDays then maxDays else nat \<bar>e - s\<bar> + 1) s
            (daysOfTheWeek sel) []"
    unfolding computeDates_def moment_diff_days_def Let_def assms by simp
  also have "(if nat \<bar>e - s\<bar> + 1 > maxDays then maxDays else nat \<bar>e - s\<bar> + 1)
               = min maxDays (nat \<bar>e - s\<bar> + 1)"
    by (simp add: min_def)
  finally show ?thesis
    by (simp only: dates_loop_eq append_Nil diff_zero)
qed

lemma computeDates_from_startDate:
  assumes "Moment (date sel) = Some e" and "Moment (startDate sel) = Some s"
  shows "\<exists>moments. computeDates maxDays sel = map moment_format moments
           \<and> (\<forall>z \<in> set moments. s \<le> z)"
  using computeDates_eq [OF assms] flagged_days_range by blast

lemma computeDates_invalid:
  "Moment (date sel) = None \<or> Moment (startDate sel) = None \<Longrightarrow> computeDates maxDays sel = []"
  by (auto simp: computeDates_def split: option.splits)

lemma Moment_2023_03_06: "Moment ''2023-03-06'' = Some 19422"
  by code_simp

lemma Moment_2023_03_10: "Moment ''2023-03-10'' = Some 19426"
  by code_simp

lemma computeDates_weekdays_range:
  "computeDates 90 weekdays_range =
     [''2023-03-06'', ''2023-03-07'', ''2023-03-08'', ''2023-03-09'', ''2023-03-10'']"
  by code_simp

text \<open>
  C5: the list \<^verbatim>\<open>computeDates\<close> returns is never longer than \<open>MAX_DATE_RANGE\<close>, and it
  is the printed form of days each of which has the flag of its day of the week
  (0 is Sunday, 6 is Saturday) set in \<open>daysOfTheWeek\<close>.
\<close>

theorem computeDates_bounded_and_flagged:
  "length (computeDates maxDays sel) \<le> maxDays \<and>
   (\<exists>moments. computeDates maxDays sel = map moment_format moments
      \<and> (\<forall>z \<in> set moments. flag_at (daysOfTheWeek sel) (moment_day z)))"
proof (cases "\<exists>e s. Moment (date sel) = Some e \<and> Moment (startDate sel) = Some s")
  case True
  then obtain e s where es: "Moment (date sel) = Some e" "Moment (startDate sel) = Some s"
    by blast
  let ?n = "min maxDays (nat \<bar>e - s\<bar> + 1)"
  let ?ms = "flagged_days (daysOfTheWeek sel) s ?n"
  have eq: "computeDates maxDays sel = map moment_format ?ms"
    by (rule computeDates_eq [OF es])
  have "length ?ms \<le> ?n" by (rule length_flagged_days)
  then have "length (computeDates maxDays sel) \<le> maxDays"
    by (simp add: eq)
  moreover have "\<forall>z \<in> set ?ms. flag_at (daysOfTheWeek sel) (moment_day z)"
    using flagged_days_flag by blast
  ultimately show ?thesis using eq by blast
next
  case False
  then have "computeDates maxDays sel = []"
    by (intro computeDates_invalid) (cases "Moment (date sel)"; cases "Moment (startDate sel)"; simp)
  then show ?thesis by simp
qed

theorem computeDates_bounded_and_flagged_witness:
  "length (computeDates 90 weekdays_range) \<le> 90 \<and>
   (\<exists>moments. computeDates 90 weekdays_range = map moment_format moments \<and> length moments = 5
      \<and> (\<forall>z \<in> set moments. flag_at (daysOfTheWeek weekdays_range) (moment_day z)))"
proof -
  from computeDates_bounded_and_flagged [of 90 weekdays_range]
  obtain moments where len: "length (computeDates 90 weekdays_range) \<le> 90"
    and eq: "computeDates 90 weekdays_range = map moment_format moments"
    and flags: "\<forall>z \<in> set moments. flag_at (daysOfTheWeek weekdays_range) (moment_day z)"
    by blast
  have "length (map moment_format moments) = 5"
    unfolding eq [symmetric] computeDates_weekdays_range by simp
  then have "length moments = 5" by simp
  with len eq flags show ?thesis by blast
qed

text \<open>
  C4, as the code has it: when \<open>startDate\<close> equals \<open>date\<close>, a valid date whose own day
  of the week has its flag set, and \<open>MAX_DATE_RANGE\<close> is at least 1, \<^verbatim>\<open>computeDates\<close>
  returns exactly that one date.
\<close>

theorem computeDates_single_day:
  assumes "Moment (date sel) = Some z" and "startDate sel = date sel"
    and "flag_at (daysOfTheWeek sel) (moment_day z)" and "1 \<le> maxDays"
  shows "computeDates maxDays sel = [moment_format z]"
proof -
  have "min maxDays (nat \<bar>z - z\<bar> + 1) = Suc 0" using assms(4) by simp
  then show ?thesis
    using assms computeDates_eq [of sel z z maxDays]
    by (simp add: flagged_days_Suc flagged_days_0)
qed

theorem computeDates_single_day_witness:
  "Moment (date monday_range) = Some 19422 \<and> startDate monday_range = date monday_range
   \<and> flag_at (daysOfTheWeek monday_range) (moment_day 19422) \<and> (1::nat) \<le> 90
   \<and> computeDates 90 monday_range = [''2023-03-06'']"
proof -
  have m: "Moment (date monday_range) = Some 19422"
    by (simp add: monday_range_def Moment_2023_03_06)
  have s: "startDate monday_range = date monday_range"
    by (simp add: monday_range_def)
  have f: "flag_at (daysOfTheWeek monday_range) (moment_day 19422)"
    by code_simp
  have p: "moment_format 19422 = ''2023-03-06''"
    by code_simp
  have one: "(1::nat) \<le> 90" by simp
  from computeDates_single_day [OF m s f one] m s f p show ?thesis by simp
qed

text \<open>
  C4 as stated fails: on Monday 2023-03-06 with only the Sunday flag set, some flag is
  set, \<open>startDate\<close> equals \<open>date\<close>, and the result is empty.
\<close>

theorem computeDates_single_day_counterexample:
  "startDate \<lparr>date = ''2023-03-06'', startDate = ''2023-03-06'', startTime = Null, endTime = Null,
      daysOfTheWeek = [True, False, False, False, False, False, False]\<rparr>
     = date \<lparr>date = ''2023-03-06'', startDate = ''2023-03-06'', startTime = Null, endTime = Null,
      daysOfTheWeek = [True, False, False, False, False, False, False]\<rparr>
   \<and> [True, False, False, False, False, False, False] ! 0
   \<and> (1::nat) \<le> 90
   \<and> length (computeDates 90
        \<lparr>date = ''2023-03-06'', startDate = ''2023-03-06'', startTime = Null, endTime = Null,
         daysOfTheWeek = [True, False, False, False, False, False, False]\<rparr>) \<noteq> 1"
  by code_simp

text \<open>
  C3 fails on the code: with \<open>startDate\<close> 2023-03-10 after \<open>date\<close> 2023-03-06 the walk
  starts at \<open>startDate\<close>, the later anchor, and runs forward to 2023-03-14; four of the five
  dates returned lie outside the days from 2023-03-06 to 2023-03-10.
\<close>

theorem computeDates_reversed_range:
  "computeDates 90
     \<lparr>date = ''2023-03-06'', startDate = ''2023-03-10'', startTime = Null, endTime = Null,
      daysOfTheWeek = [True, True, True, True, True, True, True]\<rparr>
   = [''2023-03-10'', ''2023-03-11'', ''2023-03-12'', ''2023-03-13'', ''2023-03-14'']"
  by code_simp

section \<open>The location of an arrival archive\<close>

lemma replace_hyphens_map: "replace_hyphens s = map (\<lambda>c. if c = CHR ''-'' then CHR ''/'' else c) s"
  by (induction s) simp_all

lemma replace_hyphens_append: "replace_hyphens (a @ b) = replace_hyphens a @ replace_hyphens b"
  by (induction a) simp_all

lemma replace_hyphens_id: "CHR ''-'' \<notin> set s \<Longrightarrow> replace_hyphens s = s"
  by (induction s) auto

text \<open>
  C9: for strings \<open>a\<close> (the agency), \<open>dateStr\<close> and \<open>r\<close> (the route),
  \<^verbatim>\<open>generateArrivalsURL\<close> returns
  \<^verbatim>\<open>https://{bucket}.s3.amazonaws.com/arrivals/{version}/{a}/{path}/arrivals_{version}_{a}_{dateStr}_{r}.json.gz?aj\<close>
  where \<^verbatim>\<open>{path}\<close> is \<open>dateStr\<close> with every hyphen replaced by a slash; for a date
  \<^verbatim>\<open>YYYY-MM-DD\<close> the path is \<^verbatim>\<open>YYYY/MM/DD\<close>; and with the version \<^verbatim>\<open>v1\<close> the location of
  agency \<^verbatim>\<open>sf-muni\<close>, date \<^verbatim>\<open>2023-03-06\<close>, route \<^verbatim>\<open>12\<close> ends as the spec's example does.
\<close>

theorem generateArrivalsURL_format:
  "generateArrivalsURL cfg (Str a) dateStr (Str r) =
     ''https://'' @ S3Bucket cfg @ ''.s3.amazonaws.com/arrivals/'' @ ArrivalsVersion cfg
       @ ''/'' @ a @ ''/'' @ map (\<lambda>c. if c = CHR ''-'' then CHR ''/'' else c) dateStr
       @ ''/arrivals_'' @ ArrivalsVersion cfg @ ''_'' @ a @ ''_'' @ dateStr
       @ ''_'' @ r @ ''.json.gz?aj''
   \<and> (CHR ''-'' \<notin> set yyyy \<and> CHR ''-'' \<notin> set mm \<and> CHR ''-'' \<notin> set dd \<longrightarrow>
        generateArrivalsURL cfg (Str a) (yyyy @ ''-'' @ mm @ ''-'' @ dd) (Str r) =
          ''https://'' @ S3Bucket cfg @ ''.s3.amazonaws.com/arrivals/'' @ ArrivalsVersion cfg
            @ ''/'' @ a @ ''/'' @ yyyy @ ''/'' @ mm @ ''/'' @ dd
            @ ''/arrivals_'' @ ArrivalsVersion cfg @ ''_'' @ a @ ''_'' @ yyyy @ ''-'' @ mm @ ''-'' @ dd
            @ ''_'' @ r @ ''.json.gz?aj'')
   \<and> (ArrivalsVersion cfg = ''v1'' \<longrightarrow>
        generateArrivalsURL cfg (Str ''sf-muni'') ''2023-03-06'' (Str ''12'') =
          ''https://'' @ S3Bucket cfg @ ''.s3.amazonaws.com''
            @ ''/arrivals/v1/sf-muni/2023/03/06/arrivals_v1_sf-muni_2023-03-06_12.json.gz?aj'')"
proof (intro conjI impI)
  show "generateArrivalsURL cfg (Str a) dateStr (Str r) =
     ''https://'' @ S3Bucket cfg @ ''.s3.amazonaws.com/arrivals/'' @ ArrivalsVersion cfg
       @ ''/'' @ a @ ''/'' @ map (\<lambda>c. if c = CHR ''-'' then CHR ''/'' else c) dateStr
       @ ''/arrivals_'' @ ArrivalsVersion cfg @ ''_'' @ a @ ''_'' @ dateStr
       @ ''_'' @ r @ ''.json.gz?aj''"
    by (simp add: generateArrivalsURL_def replace_hyphens_map)
next
  assume "CHR ''-'' \<notin> set yyyy \<and> CHR ''-'' \<notin> set mm \<and> CHR ''-'' \<notin> set dd"
  then have "replace_hyphens (yyyy @ ''-'' @ mm @ ''-'' @ dd) = yyyy @ ''/'' @ mm @ ''/'' @ dd"
    by (simp add: replace_hyphens_append replace_hyphens_id)
  then show "generateArrivalsURL cfg (Str a) (yyyy @ ''-'' @ mm @ ''-'' @ dd) (Str r) =
          ''https://'' @ S3Bucket cfg @ ''.s3.amazonaws.com/arrivals/'' @ ArrivalsVersion cfg
            @ ''/'' @ a @ ''/'' @ yyyy @ ''/'' @ mm @ ''/'' @ dd
            @ ''/arrivals_'' @ ArrivalsVersion cfg @ ''_'' @ a @ ''_'' @ yyyy @ ''-'' @ mm @ ''-'' @ dd
            @ ''_'' @ r @ ''.json.gz?aj''"
    by (simp add: generateArrivalsURL_def)
next
  assume "ArrivalsVersion cfg = ''v1''"
  then show "generateArrivalsURL cfg (Str ''sf-muni'') ''2023-03-06'' (Str ''12'') =
          ''https://'' @ S3Bucket cfg @ ''.s3.amazonaws.com''
            @ ''/arrivals/v1/sf-muni/2023/03/06/arrivals_v1_sf-muni_2023-03-06_12.json.gz?aj''"
    by (simp add: generateArrivalsURL_def)
qed

theorem generateArrivalsURL_format_witness:
  "CHR ''-'' \<notin> set ''2023'' \<and> CHR ''-'' \<notin> set ''03'' \<and> CHR ''-'' \<notin> set ''06''
   \<and> ArrivalsVersion example_config = ''v1''
   \<and> generateArrivalsURL example_config (Str ''sf-muni'') ''2023-03-06'' (Str ''12'') =
       ''https://opentransit-stop-arrivals.s3.amazonaws.com/arrivals/v1/sf-muni/2023/03/06/arrivals_v1_sf-muni_2023-03-06_12.json.gz?aj''"
  using generateArrivalsURL_format
    [of example_config "''sf-muni''" "''2023-03-06''" "''12''" "''2023''" "''03''" "''06''"]
  by (simp add: example_config_def)

section \<open>What the callbacks of a request dispatch\<close>

lemma events_settle_Inr: "events (settle reduce (Inr a) st) = events st @ [Dispatched a]"
  by (simp add: settle_def dispatch_def)

text \<open>
  C8: in the arrival-archive scope a rejected request, whatever it was rejected with,
  ends in the dispatch of the one action \<^verbatim>\<open>ERROR_ARRIVALS\<close> with the fixed message
  \<^verbatim>\<open>No data.\<close>; nothing of the underlying error enters the action.
\<close>

theorem fetchArrivals_failure_fixed_message:
  "fetchArrivals_settled s3Url (Rejected err) = Inr (ERROR_ARRIVALS ''No data.'')
   \<and> events (settle reduce (fetchArrivals_settled s3Url (Rejected err)) st) =
       events st @ [Dispatched (ERROR_ARRIVALS ''No data.'')]"
  by (simp add: fetchArrivals_settled_def then_catch_def events_settle_Inr)

text \<open>
  C7: in the trip, route and agency scopes a response whose payload has a non-empty
  error list, whether it comes with a fulfilled or with a rejected request, ends in the
  dispatch of the one action \<^verbatim>\<open>ERROR_..._METRICS\<close> whose message is the message of the
  first error of the list; no \<^verbatim>\<open>RECEIVED\<close> action is dispatched for it.
\<close>

theorem metrics_error_list_first_message:
  assumes "errors responseData = Some (e # es)"
    and "settled = Fulfilled \<lparr>response_data = Some responseData\<rparr>
         \<or> settled = Rejected \<lparr>err_response = Some \<lparr>response_data = Some responseData\<rparr>,
                                err_message = transport\<rparr>"
  shows "events (settle reduce (fetchTripMetrics_settled settled) st)
           = events st @ [Dispatched (ERROR_TRIP_METRICS (message e))]
       \<and> events (settle reduce (fetchRouteMetrics_settled variablesJson settled) st)
           = events st @ [Dispatched (ERROR_ROUTE_METRICS (message e))]
       \<and> events (settle reduce (fetchAgencyMetrics_settled variablesJson settled) st)
           = events st @ [Dispatched (ERROR_AGENCY_METRICS (message e))]"
  using assms
  by (auto simp: fetchTripMetrics_settled_def fetchRouteMetrics_settled_def
      fetchAgencyMetrics_settled_def then_catch_def metrics_fulfilled_def metrics_rejected_def
      first_error_message_def events_settle_Inr)

theorem metrics_error_list_first_message_witness:
  "errors \<lparr>errors = Some [\<lparr>message = ''bad route''\<rparr>], data = None\<rparr> = Some (\<lparr>message = ''bad route''\<rparr> # [])
   \<and> events (settle rootReducer (fetchTripMetrics_settled
        (Fulfilled \<lparr>response_data = Some \<lparr>errors = Some [\<lparr>message = ''bad route''\<rparr>], data = None\<rparr>\<rparr>))
        initial_store)
       = [Dispatched (ERROR_TRIP_METRICS ''bad route'')]
   \<and> events (settle rootReducer (fetchRouteMetrics_settled ''{}''
        (Fulfilled \<lparr>response_data = Some \<lparr>errors = Some [\<lparr>message = ''bad route''\<rparr>], data = None\<rparr>\<rparr>))
        initial_store)
       = [Dispatched (ERROR_ROUTE_METRICS ''bad route'')]
   \<and> events (settle rootReducer (fetchAgencyMetrics_settled ''{}''
        (Fulfilled \<lparr>response_data = Some \<lparr>errors = Some [\<lparr>message = ''bad route''\<rparr>], data = None\<rparr>\<rparr>))
        initial_store)
       = [Dispatched (ERROR_AGENCY_METRICS ''bad route'')]"
  using metrics_error_list_first_message
    [where responseData = "\<lparr>errors = Some [\<lparr>message = ''bad route''\<rparr>], data = None\<rparr>"
       and e = "\<lparr>message = ''bad route''\<rparr>" and es = "[]" and variablesJson = "''{}''"
       and settled = "Fulfilled \<lparr>response_data = Some \<lparr>errors = Some [\<lparr>message = ''bad route''\<rparr>], data = None\<rparr>\<rparr>"
       and reduce = rootReducer and st = initial_store]
  by (simp add: initial_store_def)

section \<open>What the thunks do to the store\<close>

lemma events_dispatch: "events (dispatch reduce a st) = events st @ [Dispatched a]"
  by (simp add: dispatch_def)

lemma events_axios_get: "events (axios_get request st) = events st @ [Get request]"
  by (simp add: axios_get_def)

lemma current_axios_get: "current (axios_get request st) = current st"
  by (simp add: axios_get_def)

lemma current_dispatch: "current (dispatch reduce a st) = reduce (current st) a"
  by (simp add: dispatch_def)

lemma network_calls_dispatch: "network_calls (dispatch reduce a st) = network_calls st"
  by (simp add: network_calls_def events_dispatch)

lemma network_calls_axios_get: "network_calls (axios_get request st) = network_calls st + 1"
  by (simp add: network_calls_def events_axios_get)

lemma fetchTripMetrics_eq:
  "fetchTripMetrics cfg reduce params st =
     Returned (axios_get
       (graphql_request cfg tripMetrics_query (JSON_stringify (fetchTripMetrics_variables cfg params)))
       (dispatch reduce REQUEST_TRIP_METRICS st))"
  by (simp add: fetchTripMetrics_def Let_def)

lemma fetchRouteMetrics_same:
  assumes "fetchRouteMetrics_variables cfg params = Inr variables"
    and "routeMetrics_variablesJson (current st) = Some (JSON_stringify variables)"
  shows "fetchRouteMetrics cfg reduce params st = Returned st"
  using assms by (simp add: fetchRouteMetrics_def)

lemma fetchRouteMetrics_new:
  assumes "fetchRouteMetrics_variables cfg params = Inr variables"
    and "routeMetrics_variablesJson (current st) \<noteq> Some (JSON_stringify variables)"
  shows "fetchRouteMetrics cfg reduce params st =
           Returned (axios_get (graphql_request cfg routeMetrics_query (JSON_stringify variables))
             (dispatch reduce (REQUEST_ROUTE_METRICS (JSON_stringify variables)) st))"
  using assms by (simp add: fetchRouteMetrics_def Let_def)

lemma fetchAgencyMetrics_same:
  assumes "fetchAgencyMetrics_variables cfg params = Inr variables"
    and "agencyMetrics_variablesJson (current st) = Some (JSON_stringify variables)"
  shows "fetchAgencyMetrics cfg reduce params st = Returned st"
  using assms by (simp add: fetchAgencyMetrics_def)

lemma fetchAgencyMetrics_new:
  assumes "fetchAgencyMetrics_variables cfg params = Inr variables"
    and "agencyMetrics_variablesJson (current st) \<noteq> Some (JSON_stringify variables)"
  shows "fetchAgencyMetrics cfg reduce params st =
           Returned (axios_get (graphql_request cfg agencyMetrics_query (JSON_stringify variables))
             (dispatch reduce (REQUEST_AGENCY_METRICS (JSON_stringify variables)) st))"
  using assms by (simp add: fetchAgencyMetrics_def Let_def)

lemma fetchArrivals_same:
  assumes "arrivals_url (current st) =
             Some (generateArrivalsURL cfg (agencyId params) (date (firstDateRange params)) (routeId params))"
  shows "fetchArrivals cfg reduce params st = Returned st"
  using assms by (simp add: fetchArrivals_def Let_def)

lemma fetchRouteMetrics_twice:
  assumes v: "fetchRouteMetrics_variables cfg params = Inr variables"
    and new: "routeMetrics_variablesJson (current st) \<noteq> Some (JSON_stringify variables)"
    and rec: "\<forall>s v. routeMetrics_variablesJson (reduce s (REQUEST_ROUTE_METRICS v)) = Some v"
  shows "network_calls (store_of (and_then (fetchRouteMetrics cfg reduce params st)
            (fetchRouteMetrics cfg reduce params))) = network_calls st + 1"
proof -
  let ?st1 = "axios_get (graphql_request cfg routeMetrics_query (JSON_stringify variables))
             (dispatch reduce (REQUEST_ROUTE_METRICS (JSON_stringify variables)) st)"
  have first: "fetchRouteMetrics cfg reduce params st = Returned ?st1"
    by (rule fetchRouteMetrics_new [OF v new])
  have "routeMetrics_variablesJson (current ?st1) = Some (JSON_stringify variables)"
    using rec by (simp add: current_axios_get current_dispatch)
  then have second: "fetchRouteMetrics cfg reduce params ?st1 = Returned ?st1"
    by (rule fetchRouteMetrics_same [OF v])
  show ?thesis
    by (simp add: first second network_calls_axios_get network_calls_dispatch)
qed

lemma fetchAgencyMetrics_twice:
  assumes v: "fetchAgencyMetrics_variables cfg params = Inr variables"
    and new: "agencyMetrics_variablesJson (current st) \<noteq> Some (JSON_stringify variables)"
    and rec: "\<forall>s v. agencyMetrics_variablesJson (reduce s (REQUEST_AGENCY_METRICS v)) = Some v"
  shows "network_calls (store_of (and_then (fetchAgencyMetrics cfg reduce params st)
            (fetchAgencyMetrics cfg reduce params))) = network_calls st + 1"
proof -
  let ?st1 = "axios_get (graphql_request cfg agencyMetrics_query (JSON_stringify variables))
             (dispatch reduce (REQUEST_AGENCY_METRICS (JSON_stringify variables)) st)"
  have first: "fetchAgencyMetrics cfg reduce params st = Returned ?st1"
    by (rule fetchAgencyMetrics_new [OF v new])
  have "agencyMetrics_variablesJson (current ?st1) = Some (JSON_stringify variables)"
    using rec by (simp add: current_axios_get current_dispatch)
  then have second: "fetchAgencyMetrics cfg reduce params ?st1 = Returned ?st1"
    by (rule fetchAgencyMetrics_same [OF v])
  show ?thesis
    by (simp add: first second network_calls_axios_get network_calls_dispatch)
qed

lemma fetchTripMetrics_twice:
  "network_calls (store_of (and_then (fetchTripMetrics cfg reduce params st)
      (fetchTripMetrics cfg reduce params))) = network_calls st + 2"
  by (simp add: fetchTripMetrics_eq network_calls_axios_get network_calls_dispatch)


text \<open>
  C6: the trip-scope request carries the serialized trip variables, and among them
  \<^verbatim>\<open>includeByDay\<close> is bound to true exactly when there is no second date range and
  \<^verbatim>\<open>computeDates\<close> of the first range has more than one date; with a second range, or
  with at most one date, it is bound to false.
\<close>

theorem includeByDay_binding:
  "map_of (fetchTripMetrics_variables cfg params) ''includeByDay'' =
     Some (JBool (secondDateRange params = None
                  \<and> length (computeDates (MAX_DATE_RANGE cfg) (firstDateRange params)) > 1))
   \<and> events (store_of (fetchTripMetrics cfg reduce params st)) =
       events st @
       [Dispatched REQUEST_TRIP_METRICS,
        Get (graphql_request cfg tripMetrics_query
               (JSON_stringify (fetchTripMetrics_variables cfg params)))]"
proof
  show "map_of (fetchTripMetrics_variables cfg params) ''includeByDay'' =
     Some (JBool (secondDateRange params = None
                  \<and> length (computeDates (MAX_DATE_RANGE cfg) (firstDateRange params)) > 1))"
    by (simp add: fetchTripMetrics_variables_def Let_def split: option.splits)
  show "events (store_of (fetchTripMetrics cfg reduce params st)) =
       events st @
       [Dispatched REQUEST_TRIP_METRICS,
        Get (graphql_request cfg tripMetrics_query
               (JSON_stringify (fetchTripMetrics_variables cfg params)))]"
    by (simp add: fetchTripMetrics_eq events_dispatch events_axios_get)
qed

lemma fetchRouteMetrics_variables_agencyId:
  "fetchRouteMetrics_variables cfg (params\<lparr>agencyId := a\<rparr>) = fetchRouteMetrics_variables cfg params"
  by (simp add: fetchRouteMetrics_variables_def Let_def split: sum.splits option.splits)

lemma fetchAgencyMetrics_variables_agencyId:
  "fetchAgencyMetrics_variables cfg (params\<lparr>agencyId := a\<rparr>) = fetchAgencyMetrics_variables cfg params"
  by (simp add: fetchAgencyMetrics_variables_def Let_def split: sum.splits)


text \<open>
  C10: changing only \<open>agencyId\<close> in the selection changes neither the variable bindings
  nor anything else \<^verbatim>\<open>fetchRouteMetrics\<close> and \<^verbatim>\<open>fetchAgencyMetrics\<close> do; both bind the
  query variable \<^verbatim>\<open>agencyId\<close> to the id of the first configured agency, and only the
  trip scope binds it to the \<open>agencyId\<close> of the selection.
\<close>

theorem route_and_agency_scope_bind_first_agency:
  "fetchRouteMetrics_variables cfg (params\<lparr>agencyId := a\<rparr>) = fetchRouteMetrics_variables cfg params
   \<and> fetchAgencyMetrics_variables cfg (params\<lparr>agencyId := a\<rparr>) = fetchAgencyMetrics_variables cfg params
   \<and> fetchRouteMetrics cfg reduce (params\<lparr>agencyId := a\<rparr>) st = fetchRouteMetrics cfg reduce params st
   \<and> fetchAgencyMetrics cfg reduce (params\<lparr>agencyId := a\<rparr>) st = fetchAgencyMetrics cfg reduce params st
   \<and> (Agencies cfg = first # others \<longrightarrow>
        (\<exists>variables. fetchRouteMetrics_variables cfg params = Inr variables
           \<and> map_of variables ''agencyId'' = Some (JString (agency_id first)))
      \<and> (\<exists>variables. fetchAgencyMetrics_variables cfg params = Inr variables
           \<and> map_of variables ''agencyId'' = Some (JString (agency_id first))))
   \<and> map_of (fetchTripMetrics_variables cfg params) ''agencyId'' = Some (of_jsstr (agencyId params))"
proof (intro conjI impI)
  show "fetchRouteMetrics_variables cfg (params\<lparr>agencyId := a\<rparr>) = fetchRouteMetrics_variables cfg params"
    by (rule fetchRouteMetrics_variables_agencyId)
  show "fetchAgencyMetrics_variables cfg (params\<lparr>agencyId := a\<rparr>) = fetchAgencyMetrics_variables cfg params"
    by (rule fetchAgencyMetrics_variables_agencyId)
  show "fetchRouteMetrics cfg reduce (params\<lparr>agencyId := a\<rparr>) st = fetchRouteMetrics cfg reduce params st"
    by (simp add: fetchRouteMetrics_def fetchRouteMetrics_variables_agencyId)
  show "fetchAgencyMetrics cfg reduce (params\<lparr>agencyId := a\<rparr>) st = fetchAgencyMetrics cfg reduce params st"
    by (simp add: fetchAgencyMetrics_def fetchAgencyMetrics_variables_agencyId)
  show "map_of (fetchTripMetrics_variables cfg params) ''agencyId'' = Some (of_jsstr (agencyId params))"
    by (simp add: fetchTripMetrics_variables_def Let_def split: option.splits)
next
  assume "Agencies cfg = first # others"
  then show "\<exists>variables. fetchRouteMetrics_variables cfg params = Inr variables
           \<and> map_of variables ''agencyId'' = Some (JString (agency_id first))"
    by (simp add: fetchRouteMetrics_variables_def first_agency_id_def Let_def split: option.splits)
next
  assume "Agencies cfg = first # others"
  then show "\<exists>variables. fetchAgencyMetrics_variables cfg params = Inr variables
           \<and> map_of variables ''agencyId'' = Some (JString (agency_id first))"
    by (simp add: fetchAgencyMetrics_variables_def first_agency_id_def Let_def)
qed

theorem route_and_agency_scope_bind_first_agency_witness:
  "Agencies example_config = \<lparr>agency_id = ''sf-muni''\<rparr> # []
   \<and> (\<exists>variables.
        fetchRouteMetrics_variables example_config (example_params\<lparr>agencyId := Str ''la-metro''\<rparr>)
          = Inr variables
        \<and> map_of variables ''agencyId'' = Some (JString ''sf-muni''))
   \<and> (\<exists>variables.
        fetchAgencyMetrics_variables example_config (example_params\<lparr>agencyId := Str ''la-metro''\<rparr>)
          = Inr variables
        \<and> map_of variables ''agencyId'' = Some (JString ''sf-muni''))
   \<and> map_of (fetchTripMetrics_variables example_config (example_params\<lparr>agencyId := Str ''la-metro''\<rparr>))
        ''agencyId'' = Some (JString ''la-metro'')"
proof -
  have ag: "Agencies example_config = \<lparr>agency_id = ''sf-muni''\<rparr> # []"
    by (simp add: example_config_def)
  from route_and_agency_scope_bind_first_agency
    [where cfg = example_config and params = "example_params\<lparr>agencyId := Str ''la-metro''\<rparr>"
       and a = "Str ''la-metro''" and first = "\<lparr>agency_id = ''sf-muni''\<rparr>" and others = "[]"] ag
  show ?thesis by simp
qed


text \<open>
  C1, as the code has it. In the route and the agency scope, a fetch whose serialized
  variables equal the \<^verbatim>\<open>variablesJson\<close> in the state, and in the archive scope a fetch whose
  location equals the \<^verbatim>\<open>url\<close> in the state, dispatches nothing and issues no request.
  In the route and the agency scope the action \<^verbatim>\<open>REQUEST_..._METRICS\<close> carries the
  serialized variables, so with a reducer that records them two fetches in succession
  with the same variables issue exactly one request. The trip scope compares nothing:
  every fetch dispatches \<^verbatim>\<open>REQUEST_TRIP_METRICS\<close> and issues a request.
\<close>

theorem fetch_dedup:
  assumes "fetchRouteMetrics_variables cfg params = Inr routeVariables"
    and "fetchAgencyMetrics_variables cfg params = Inr agencyVariables"
  shows
    "(routeMetrics_variablesJson (current st) = Some (JSON_stringify routeVariables)
        \<longrightarrow> fetchRouteMetrics cfg reduce params st = Returned st)
   \<and> (agencyMetrics_variablesJson (current st) = Some (JSON_stringify agencyVariables)
        \<longrightarrow> fetchAgencyMetrics cfg reduce params st = Returned st)
   \<and> (arrivals_url (current st) =
          Some (generateArrivalsURL cfg (agencyId params) (date (firstDateRange params)) (routeId params))
        \<longrightarrow> fetchArrivals cfg reduce params st = Returned st)
   \<and> (routeMetrics_variablesJson (current st) \<noteq> Some (JSON_stringify routeVariables)
        \<and> (\<forall>s v. routeMetrics_variablesJson (reduce s (REQUEST_ROUTE_METRICS v)) = Some v)
        \<longrightarrow> network_calls (store_of (and_then (fetchRouteMetrics cfg reduce params st)
               (fetchRouteMetrics cfg reduce params))) = network_calls st + 1)
   \<and> (agencyMetrics_variablesJson (current st) \<noteq> Some (JSON_stringify agencyVariables)
        \<and> (\<forall>s v. agencyMetrics_variablesJson (reduce s (REQUEST_AGENCY_METRICS v)) = Some v)
        \<longrightarrow> network_calls (store_of (and_then (fetchAgencyMetrics cfg reduce params st)
               (fetchAgencyMetrics cfg reduce params))) = network_calls st + 1)
   \<and> fetchTripMetrics cfg reduce params st =
       Returned (axios_get
         (graphql_request cfg tripMetrics_query (JSON_stringify (fetchTripMetrics_variables cfg params)))
         (dispatch reduce REQUEST_TRIP_METRICS st))"
  using fetchRouteMetrics_same [OF assms(1)] fetchAgencyMetrics_same [OF assms(2)]
    fetchArrivals_same fetchRouteMetrics_twice [OF assms(1)] fetchAgencyMetrics_twice [OF assms(2)]
    fetchTripMetrics_eq
  by blast

lemma example_route_variables:
  "\<exists>variables. fetchRouteMetrics_variables example_config example_params = Inr variables"
  by (simp add: fetchRouteMetrics_variables_def first_agency_id_def example_config_def
      example_params_def Let_def)

lemma example_agency_variables:
  "\<exists>variables. fetchAgencyMetrics_variables example_config example_params = Inr variables"
  by (simp add: fetchAgencyMetrics_variables_def first_agency_id_def example_config_def Let_def)

lemma rootReducer_records_route:
  "\<forall>s v. routeMetrics_variablesJson (rootReducer s (REQUEST_ROUTE_METRICS v)) = Some v"
  by simp

lemma rootReducer_records_agency:
  "\<forall>s v. agencyMetrics_variablesJson (rootReducer s (REQUEST_AGENCY_METRICS v)) = Some v"
  by simp

theorem fetch_dedup_witness:
  "\<exists>routeVariables agencyVariables.
     fetchRouteMetrics_variables example_config example_params = Inr routeVariables
   \<and> fetchAgencyMetrics_variables example_config example_params = Inr agencyVariables
   \<and> routeMetrics_variablesJson
        (current (recorded_store (JSON_stringify routeVariables) (JSON_stringify agencyVariables)))
       = Some (JSON_stringify routeVariables)
   \<and> fetchRouteMetrics example_config rootReducer example_params
        (recorded_store (JSON_stringify routeVariables) (JSON_stringify agencyVariables))
       = Returned (recorded_store (JSON_stringify routeVariables) (JSON_stringify agencyVariables))
   \<and> agencyMetrics_variablesJson
        (current (recorded_store (JSON_stringify routeVariables) (JSON_stringify agencyVariables)))
       = Some (JSON_stringify agencyVariables)
   \<and> fetchAgencyMetrics example_config rootReducer example_params
        (recorded_store (JSON_stringify routeVariables) (JSON_stringify agencyVariables))
       = Returned (recorded_store (JSON_stringify routeVariables) (JSON_stringify agencyVariables))
   \<and> arrivals_url
        (current (recorded_store (JSON_stringify routeVariables) (JSON_stringify agencyVariables)))
       = Some (generateArrivalsURL example_config (agencyId example_params)
                 (date (firstDateRange example_params)) (routeId example_params))
   \<and> fetchArrivals example_config rootReducer example_params
        (recorded_store (JSON_stringify routeVariables) (JSON_stringify agencyVariables))
       = Returned (recorded_store (JSON_stringify routeVariables) (JSON_stringify agencyVariables))
   \<and> routeMetrics_variablesJson (current initial_store) \<noteq> Some (JSON_stringify routeVariables)
   \<and> (\<forall>s v. routeMetrics_variablesJson (rootReducer s (REQUEST_ROUTE_METRICS v)) = Some v)
   \<and> network_calls (store_of (and_then
          (fetchRouteMetrics example_config rootReducer example_params initial_store)
          (fetchRouteMetrics example_config rootReducer example_params))) = 1
   \<and> agencyMetrics_variablesJson (current initial_store) \<noteq> Some (JSON_stringify agencyVariables)
   \<and> (\<forall>s v. agencyMetrics_variablesJson (rootReducer s (REQUEST_AGENCY_METRICS v)) = Some v)
   \<and> network_calls (store_of (and_then
          (fetchAgencyMetrics example_config rootReducer example_params initial_store)
          (fetchAgencyMetrics example_config rootReducer example_params))) = 1"
proof -
  obtain rv where rv: "fetchRouteMetrics_variables example_config example_params = Inr rv"
    using example_route_variables by blast
  obtain av where av: "fetchAgencyMetrics_variables example_config example_params = Inr av"
    using example_agency_variables by blast
  let ?rec = "recorded_store (JSON_stringify rv) (JSON_stringify av)"
  have r1: "routeMetrics_variablesJson (current ?rec) = Some (JSON_stringify rv)"
    and a1: "agencyMetrics_variablesJson (current ?rec) = Some (JSON_stringify av)"
    and u1: "arrivals_url (current ?rec) =
       Some (generateArrivalsURL example_config (agencyId example_params)
                 (date (firstDateRange example_params)) (routeId example_params))"
    by (simp_all add: recorded_store_def example_url_def)
  have r0: "routeMetrics_variablesJson (current initial_store) \<noteq> Some (JSON_stringify rv)"
    and a0: "agencyMetrics_variablesJson (current initial_store) \<noteq> Some (JSON_stringify av)"
    and n0: "network_calls initial_store = 0"
    by (simp_all add: initial_store_def initial_state_def network_calls_def)
  note at_recorded = fetch_dedup [OF rv av, of ?rec rootReducer]
  note at_initial = fetch_dedup [OF rv av, of initial_store rootReducer]
  have "fetchRouteMetrics example_config rootReducer example_params ?rec = Returned ?rec"
    using at_recorded r1 by blast
  moreover have "fetchAgencyMetrics example_config rootReducer example_params ?rec = Returned ?rec"
    using at_recorded a1 by blast
  moreover have "fetchArrivals example_config rootReducer example_params ?rec = Returned ?rec"
    using at_recorded u1 by blast
  moreover have "network_calls (store_of (and_then
          (fetchRouteMetrics example_config rootReducer example_params initial_store)
          (fetchRouteMetrics example_config rootReducer example_params))) = 1"
    using at_initial r0 rootReducer_records_route n0 by simp
  moreover have "network_calls (store_of (and_then
          (fetchAgencyMetrics example_config rootReducer example_params initial_store)
          (fetchAgencyMetrics example_config rootReducer example_params))) = 1"
    using at_initial a0 rootReducer_records_agency n0 by simp
  ultimately show ?thesis
    using rv av r1 a1 u1 r0 a0 rootReducer_records_route rootReducer_records_agency by blast
qed


text \<open>
  C1 as stated fails in the trip scope: two trip fetches in succession with the same
  selection issue two requests.
\<close>

theorem trip_fetch_twice_counterexample:
  "network_calls (store_of (and_then
      (fetchTripMetrics example_config rootReducer example_params initial_store)
      (fetchTripMetrics example_config rootReducer example_params))) = 2"
proof -
  have "network_calls initial_store = 0"
    by (simp add: network_calls_def initial_store_def)
  then show ?thesis
    by (simp add: fetchTripMetrics_twice)
qed


text \<open>
  In the archive scope \<^verbatim>\<open>REQUEST_ARRIVALS\<close> carries no location: with the reducer
  modelled from the spec a second fetch that comes before the archive is received
  issues a second request.
\<close>

lemma fetchArrivals_twice_before_received:
  "network_calls (store_of (and_then
      (fetchArrivals example_config rootReducer example_params initial_store)
      (fetchArrivals example_config rootReducer example_params))) = 2"
  by (simp add: fetchArrivals_def Let_def dispatch_def axios_get_def network_calls_def
      initial_store_def initial_state_def)

section \<open>Replacing the selection\<close>

lemma resetArrivals_eq:
  "resetArrivals reduce st = Returned (dispatch reduce (RECEIVED_ARRIVALS None None) st)"
  by (simp add: resetArrivals_def)

lemma fetchAgencyMetrics_extends:
  "\<exists>rest. events (store_of (fetchAgencyMetrics cfg reduce params st)) = events st @ rest"
  by (simp add: fetchAgencyMetrics_def Let_def events_dispatch events_axios_get split: sum.splits)

lemma fetchRouteMetrics_extends:
  "\<exists>rest. events (store_of (fetchRouteMetrics cfg reduce params st)) = events st @ rest"
  by (simp add: fetchRouteMetrics_def Let_def events_dispatch events_axios_get split: sum.splits)

lemma fetchTripMetrics_extends:
  "\<exists>rest. events (store_of (fetchTripMetrics cfg reduce params st)) = events st @ rest"
  by (simp add: fetchTripMetrics_eq events_dispatch events_axios_get)

lemma resetTripMetrics_extends:
  "\<exists>rest. events (store_of (resetTripMetrics reduce st)) = events st @ rest"
  by (simp add: resetTripMetrics_def events_dispatch)

lemma and_then_extends:
  assumes "\<exists>rest. events (store_of out) = es @ rest"
    and "\<And>st. \<exists>rest. events (store_of (f st)) = events st @ rest"
  shows "\<exists>rest. events (store_of (and_then out f)) = es @ rest"
proof (cases out)
  case (Returned st)
  from assms(1) Returned obtain r1 where r1: "events st = es @ r1" by auto
  from assms(2) [of st] obtain r2 where "events (store_of (f st)) = events st @ r2" by blast
  with r1 Returned show ?thesis by simp
next
  case (Thrown err st)
  with assms(1) show ?thesis by simp
qed

lemma if_extends:
  assumes "\<exists>rest. events (store_of out) = events st @ rest"
  shows "\<exists>rest. events (store_of (if c then out else Returned st)) = events st @ rest"
  using assms by simp


lemma example_trace:
  "\<exists>agencyJson routeJson tripJson.
     events (store_of (handleGraphParams example_config rootReducer example_params initial_store)) =
       [Dispatched (RECEIVED_GRAPH_PARAMS example_params),
        Dispatched (RECEIVED_ARRIVALS None None),
        Dispatched (REQUEST_AGENCY_METRICS agencyJson),
        Get (graphql_request example_config agencyMetrics_query agencyJson),
        Dispatched (REQUEST_ROUTE_METRICS routeJson),
        Get (graphql_request example_config routeMetrics_query routeJson),
        Dispatched REQUEST_TRIP_METRICS,
        Get (graphql_request example_config tripMetrics_query tripJson)]"
proof -
  obtain rv where rv: "fetchRouteMetrics_variables example_config example_params = Inr rv"
    using example_route_variables by blast
  obtain av where av: "fetchAgencyMetrics_variables example_config example_params = Inr av"
    using example_agency_variables by blast
  have gp: "graphParams_slice (rootReducer s (RECEIVED_GRAPH_PARAMS example_params)) = example_params"
    for s :: app_state
    by simp
  have fields: "truthy (agencyId example_params)" "truthy (routeId example_params)"
    "truthy (directionId example_params)" "truthy (startStopId example_params)"
    "truthy (endStopId example_params)" "date (firstDateRange example_params) \<noteq> []"
    "date (firstDateRange example_params) \<noteq> date (firstDateRange (graphParams_slice initial_state))"
    by (simp_all add: example_params_def weekdays_range_def initial_state_def monday_range_def)
  have init: "current initial_store = initial_state" "events initial_store = []"
    "routeMetrics_variablesJson initial_state = None"
    "agencyMetrics_variablesJson initial_state = None"
    by (simp_all add: initial_store_def initial_state_def)
  show ?thesis
    using fields(7)
    by (simp add: handleGraphParams_def Let_def resetArrivals_def fetchAgencyMetrics_def
        fetchRouteMetrics_def fetchTripMetrics_def rv av gp fields(1-6) init
        current_dispatch events_dispatch current_axios_get events_axios_get)
      blast
qed

text \<open>
  C2: when the stored selection after \<^verbatim>\<open>RECEIVED_GRAPH_PARAMS\<close> differs from the one
  stored before in the date of the first range, the route or the agency,
  \<^verbatim>\<open>handleGraphParams\<close> dispatches the reset of the arrival archive
  (\<^verbatim>\<open>RECEIVED_ARRIVALS\<close> with no data and no location) right after
  \<^verbatim>\<open>RECEIVED_GRAPH_PARAMS\<close>: everything the agency, route and trip fetches dispatch or
  request comes after it.
\<close>

theorem archive_reset_precedes_fetches:
  assumes "oldParams = graphParams_slice (current st)"
    and "graphParams = graphParams_slice (current (dispatch reduce (RECEIVED_GRAPH_PARAMS params) st))"
    and "date (firstDateRange oldParams) \<noteq> date (firstDateRange graphParams)
         \<or> routeId oldParams \<noteq> routeId graphParams
         \<or> agencyId oldParams \<noteq> agencyId graphParams"
  shows "\<exists>rest. events (store_of (handleGraphParams cfg reduce params st)) =
           events st @ [Dispatched (RECEIVED_GRAPH_PARAMS params),
                        Dispatched (RECEIVED_ARRIVALS None None)] @ rest"
proof -
  let ?st1 = "dispatch reduce (RECEIVED_GRAPH_PARAMS params) st"
  let ?st2 = "dispatch reduce (RECEIVED_ARRIVALS None None) ?st1"
  let ?old = "graphParams_slice (current st)"
  let ?new = "graphParams_slice (current ?st1)"
  have differs: "date (firstDateRange ?old) \<noteq> date (firstDateRange ?new)
         \<or> routeId ?old \<noteq> routeId ?new \<or> agencyId ?old \<noteq> agencyId ?new"
    using assms(3) unfolding assms(1) assms(2) .
  let ?es = "events st @ [Dispatched (RECEIVED_GRAPH_PARAMS params),
                        Dispatched (RECEIVED_ARRIVALS None None)]"
  let ?trip = "\<lambda>st'. if truthy (agencyId ?new) \<and> truthy (routeId ?new)
              \<and> truthy (directionId ?new) \<and> truthy (startStopId ?new)
              \<and> truthy (endStopId ?new)
           then fetchTripMetrics cfg reduce ?new st'
           else resetTripMetrics reduce st'"
  let ?route = "\<lambda>st'. and_then
           (if truthy (agencyId ?new) \<and> truthy (routeId ?new)
            then fetchRouteMetrics cfg reduce ?new st' else Returned st') ?trip"
  let ?agency = "\<lambda>st'. and_then
           (if date (firstDateRange ?new) \<noteq> []
            then fetchAgencyMetrics cfg reduce ?new st' else Returned st') ?route"
  have unfolded: "handleGraphParams cfg reduce params st = ?agency ?st2"
    by (simp only: handleGraphParams_def Let_def resetArrivals_eq if_P [OF differs] and_then.simps)
  have trip: "\<exists>rest. events (store_of (?trip st')) = events st' @ rest" for st'
    by (simp add: fetchTripMetrics_extends resetTripMetrics_extends)
  have route: "\<exists>rest. events (store_of (?route st')) = events st' @ rest" for st'
    by (rule and_then_extends [OF if_extends [OF fetchRouteMetrics_extends] trip])
  have agency: "\<exists>rest. events (store_of (?agency st')) = events st' @ rest" for st'
    by (rule and_then_extends [OF if_extends [OF fetchAgencyMetrics_extends] route])
  have "events ?st2 = ?es"
    by (simp add: events_dispatch)
  with agency [of ?st2] unfolded show ?thesis by simp
qed

theorem archive_reset_precedes_fetches_witness:
  "date (firstDateRange (graphParams_slice (current initial_store))) \<noteq>
     date (firstDateRange (graphParams_slice
       (current (dispatch rootReducer (RECEIVED_GRAPH_PARAMS example_params) initial_store))))
   \<and> (\<exists>rest. events (store_of (handleGraphParams example_config rootReducer example_params initial_store)) =
           events initial_store @ [Dispatched (RECEIVED_GRAPH_PARAMS example_params),
                        Dispatched (RECEIVED_ARRIVALS None None)] @ rest
        \<and> length rest = 6)"
proof -
  have differs: "date (firstDateRange (graphParams_slice (current initial_store))) \<noteq>
     date (firstDateRange (graphParams_slice
       (current (dispatch rootReducer (RECEIVED_GRAPH_PARAMS example_params) initial_store))))"
    by (simp add: initial_store_def initial_state_def dispatch_def example_params_def
        monday_range_def weekdays_range_def)
  from archive_reset_precedes_fetches [OF refl refl disjI1, OF differs]
  obtain rest where rest:
    "events (store_of (handleGraphParams example_config rootReducer example_params initial_store)) =
       events initial_store @ [Dispatched (RECEIVED_GRAPH_PARAMS example_params),
                        Dispatched (RECEIVED_ARRIVALS None None)] @ rest"
    by blast
  have "length (events (store_of
          (handleGraphParams example_config rootReducer example_params initial_store))) = 8"
    using example_trace by auto
  moreover have "events initial_store = []"
    by (simp add: initial_store_def)
  ultimately have "length rest = 6"
    using rest by simp
  with differs rest show ?thesis by blast
qed

end
